theory Spec2Isabelle
  imports Main "HOL-Library.Sublist" "HOL-Library.Multiset"
begin

section \<open>The web-to-PDF converter: data model\<close>

text \<open>
  The program \<^verbatim>\<open>web_to_pdf_converter.py\<close> renders each configured URL to
  \<^verbatim>\<open>page_<i>.pdf\<close> in one download directory and then merges every
  \<^verbatim>\<open>*.pdf\<close> entry of that directory, ordered by \<^verbatim>\<open>os.path.getctime\<close>.
  The browser, the PDF library and the filesystem are outside the program; what they
  answer is an input of the model:
  \<^item> a PDF document is the list of its pages, a page an abstract identifier;
  \<^item> a directory entry carries its name, the number \<^verbatim>\<open>os.path.getctime\<close> returns
    for it (an integer number of clock ticks), and a body: a readable PDF; something
    on which \<^verbatim>\<open>PdfMerger.append\<close> raises; or a dangling symbolic link, which the
    directory scan lists and for which \<^verbatim>\<open>os.path.getctime\<close> raises (its timestamp
    field is never read);
  \<^item> the directory is the list of its entries in the order the directory scan yields
    them; file names are single path components and matching is case-sensitive (POSIX);
  \<^item> \<^verbatim>\<open>PdfMerger.append\<close> given a file name opens the file and keeps it open; the
    merger holds the sources appended so far, each with its pages, and reads the pages
    from the open files when the document is written;
  \<^item> each \<^verbatim>\<open>print\<close> is one event on standard output. The line of line 79 starts
    with the character U+2705, which the encoding of standard output may be unable to
    encode: that \<^verbatim>\<open>print\<close> then raises. The other lines are taken to be printable;
  \<^item> the calls that can raise are \<^verbatim>\<open>mkdir\<close>, the browser calls of one fetch,
    \<^verbatim>\<open>os.path.getctime\<close>, \<^verbatim>\<open>merger.append\<close>, \<^verbatim>\<open>open\<close>, \<^verbatim>\<open>merger.write\<close> and the
    \<^verbatim>\<open>print\<close> of line 79; what a fetch or an append raises is an \<^verbatim>\<open>Exception\<close>, which
    the handler around it catches.
\<close>

type_synonym page = nat

datatype body = Pdf "page list" | Unreadable | Dangling

record dirent =
  entry_name :: string
  getctime :: int
  body :: body

text \<open>
  The path \<^verbatim>\<open>DOWNLOAD_DIRECTORY\<close> before the run: nothing there yet, something that
  keeps \<^verbatim>\<open>mkdir\<close> from succeeding (a non-directory at the path, a missing parent, no
  permission), or a directory with its entries.
\<close>

datatype node = Absent | Blocked | Dir "dirent list"

text \<open>A \<^verbatim>\<open>pathlib.Path\<close> of one directory and one file name: \<^verbatim>\<open>directory / filename\<close>.\<close>

type_synonym path = "string \<times> string"

definition joinpath :: "string \<Rightarrow> string \<Rightarrow> path" where
  "joinpath directory filename = (directory, filename)"

definition name :: "path \<Rightarrow> string" where
  "name p = snd p"

datatype exn = Mkdir_error | Fetch_error | Stat_error | Open_error | Write_error | Print_error

text \<open>The lines the program prints, one constructor per \<^verbatim>\<open>print\<close> call of the source.\<close>

datatype event =
    Banner
  | Directory_prepared string
  | Starting_download string
  | Pausing
  | Saved_to string
  | Download_failed string
  | No_pdfs_found
  | Merging nat string
  | Adding string
  | Could_not_merge string
  | Merging_completed path
  | Only_one string
  | No_files_downloaded
  | Process_complete

record run_state =
  stdout :: "event list"
  files :: "dirent list"

text \<open>
  What the browser does on one call of \<^verbatim>\<open>download_page_as_pdf\<close>: launching or
  navigating raises; the PDF export raises (nothing is written); the export writes the
  file and closing the browser raises; or the call returns. A written file comes with
  the timestamp the filesystem gives it.
\<close>

datatype fetch_outcome =
    Navigation_raises
  | Export_raises
  | Close_raises int "page list"
  | Fetched int "page list"

text \<open>
  What happens at \<^verbatim>\<open>open(output_path, "wb")\<close> and \<^verbatim>\<open>merger.write(f)\<close>: opening raises
  (nothing changes); the file is opened, hence truncated, and writing raises (what is
  left is no readable PDF); or the merged document is written.
\<close>

datatype write_outcome = Open_raises | Write_raises int | Written int

text \<open>
  The environment of one run: what each fetch does, by its position in the list, what
  opening and writing the merged file does, and whether standard output can encode the
  character U+2705.
\<close>

record world =
  fetch_result :: "nat \<Rightarrow> fetch_outcome"
  write_result :: write_outcome
  encodes_check_mark :: bool

record config =
  urls_to_download :: "string list"
  download_directory :: string
  merged_filename :: string

definition URLS_TO_DOWNLOAD :: "string list" where
  "URLS_TO_DOWNLOAD =
     [''https://www.google.com/'',
      ''https://en.wikipedia.org/wiki/Python_(programming_language)'',
      ''https://example.com/'']"

definition DOWNLOAD_DIRECTORY :: string where
  "DOWNLOAD_DIRECTORY = ''downloaded_pdfs''"

definition MERGED_FILENAME :: string where
  "MERGED_FILENAME = ''combined_report.pdf''"

definition configuration :: config where
  "configuration =
     \<lparr>urls_to_download = URLS_TO_DOWNLOAD,
      download_directory = DOWNLOAD_DIRECTORY,
      merged_filename = MERGED_FILENAME\<rparr>"

section \<open>The filesystem operations the program uses\<close>

text \<open>\<^verbatim>\<open>Path.mkdir(exist_ok=True)\<close>: the entries of the directory afterwards, or the error.\<close>

fun mkdir :: "node \<Rightarrow> exn + dirent list" where
  "mkdir Absent = Inr []"
| "mkdir Blocked = Inl Mkdir_error"
| "mkdir (Dir es) = Inr es"

text \<open>\<^verbatim>\<open>directory.glob("*.pdf")\<close>: the entries whose name ends in \<^verbatim>\<open>.pdf\<close>, in scan order.\<close>

definition glob_pdf :: "dirent list \<Rightarrow> dirent list" where
  "glob_pdf es = filter (\<lambda>e. suffix ''.pdf'' (entry_name e)) es"

text \<open>Creating or overwriting the file \<open>n\<close> of the directory.\<close>

fun write_file :: "string \<Rightarrow> int \<Rightarrow> body \<Rightarrow> dirent list \<Rightarrow> dirent list" where
  "write_file n t b [] = [\<lparr>entry_name = n, getctime = t, body = b\<rparr>]"
| "write_file n t b (e # es) =
     (if entry_name e = n then \<lparr>entry_name = n, getctime = t, body = b\<rparr> # es
      else e # write_file n t b es)"

definition lookup :: "string \<Rightarrow> dirent list \<Rightarrow> dirent option" where
  "lookup n es = find (\<lambda>e. entry_name e = n) es"

text \<open>Python's decimal rendering of a non-negative integer, as \<^verbatim>\<open>f"{i+1}"\<close> gives it.\<close>

definition digit :: "nat \<Rightarrow> char" where
  "digit d = ''0123456789'' ! d"

function str_of_nat :: "nat \<Rightarrow> string" where
  "str_of_nat n = (if n < 10 then [digit n] else str_of_nat (n div 10) @ [digit (n mod 10)])"
  by pat_completeness auto
termination
  by (relation "measure id") auto

declare str_of_nat.simps [simp del]

section \<open>The program\<close>

subsection \<open>\<^verbatim>\<open>download_page_as_pdf\<close>\<close>

definition print :: "event \<Rightarrow> run_state \<Rightarrow> run_state" where
  "print ev s = s\<lparr>stdout := stdout s @ [ev]\<rparr>"

fun download_page_as_pdf ::
  "fetch_outcome \<Rightarrow> string \<Rightarrow> path \<Rightarrow> run_state \<Rightarrow> (exn + path) \<times> run_state" where
  "download_page_as_pdf Navigation_raises url filepath s =
     (Inl Fetch_error, print (Starting_download url) s)"
| "download_page_as_pdf Export_raises url filepath s =
     (Inl Fetch_error, print Pausing (print (Starting_download url) s))"
| "download_page_as_pdf (Close_raises t ps) url filepath s =
     (let s1 = print Pausing (print (Starting_download url) s);
          s2 = s1\<lparr>files := write_file (name filepath) t (Pdf ps) (files s1)\<rparr>
      in (Inl Fetch_error, print (Saved_to (name filepath)) s2))"
| "download_page_as_pdf (Fetched t ps) url filepath s =
     (let s1 = print Pausing (print (Starting_download url) s);
          s2 = s1\<lparr>files := write_file (name filepath) t (Pdf ps) (files s1)\<rparr>
      in (Inr filepath, print (Saved_to (name filepath)) s2))"

subsection \<open>\<^verbatim>\<open>merge_pdfs_by_creation_time\<close>\<close>

text \<open>
  Lines 52 to 55: the sorted directory scan. \<^verbatim>\<open>sorted\<close> first asks every entry of the
  scan for its key; an \<^verbatim>\<open>os.path.getctime\<close> that raises ends the sort, and the function,
  with that exception. Otherwise the entries are ordered by their keys; Python's
  \<^verbatim>\<open>sorted\<close> is stable, as is \<open>sort_key\<close>.
\<close>

definition getctime_raises :: "dirent list \<Rightarrow> bool" where
  "getctime_raises es = list_ex (\<lambda>e. body e = Dangling) (glob_pdf es)"

definition pdf_files :: "dirent list \<Rightarrow> dirent list" where
  "pdf_files es = sort_key getctime (glob_pdf es)"

text \<open>
  Lines 66 to 71: the loop over the sorted files. The merger is the list of the sources
  appended so far, each the name of the file it keeps open and the file's pages.
\<close>

fun append_all ::
  "dirent list \<Rightarrow> event list \<times> (string \<times> page list) list
     \<Rightarrow> event list \<times> (string \<times> page list) list" where
  "append_all [] acc = acc"
| "append_all (pdf # rest) (out, merger) =
     (let out1 = out @ [Adding (entry_name pdf)]
      in case body pdf of
           Pdf ps \<Rightarrow> append_all rest (out1, merger @ [(entry_name pdf, ps)])
         | Unreadable \<Rightarrow> append_all rest (out1 @ [Could_not_merge (entry_name pdf)], merger)
         | Dangling \<Rightarrow> append_all rest (out1 @ [Could_not_merge (entry_name pdf)], merger))"

text \<open>
  Lines 74 to 79. \<^verbatim>\<open>open(output_path, "wb")\<close> truncates the file; when the merger holds
  a source of that name, the pages it would now read are gone and \<^verbatim>\<open>merger.write\<close>
  raises, whatever the environment would otherwise have allowed. After a successful
  write the closing line is printed, which raises when standard output cannot encode
  its first character.
\<close>

definition merge_pdfs_by_creation_time ::
  "write_outcome \<Rightarrow> bool \<Rightarrow> string \<Rightarrow> string \<Rightarrow> run_state \<Rightarrow> exn option \<times> run_state"
  where
  "merge_pdfs_by_creation_time wo check_mark_prints directory output_filename s =
     (if getctime_raises (files s) then (Some Stat_error, s)
      else
        let fs = pdf_files (files s) in
        if fs = [] then (None, print No_pdfs_found s)
        else
          let (out, merger) =
                append_all fs (stdout s @ [Merging (length fs) output_filename], []);
              output_path = joinpath directory output_filename
          in case wo of
               Open_raises \<Rightarrow> (Some Open_error, \<lparr>stdout = out, files = files s\<rparr>)
             | Write_raises t \<Rightarrow>
                 (Some Write_error,
                  \<lparr>stdout = out, files = write_file (name output_path) t Unreadable (files s)\<rparr>)
             | Written t \<Rightarrow>
                 if name output_path \<in> set (map fst merger) then
                   (Some Write_error,
                    \<lparr>stdout = out,
                     files = write_file (name output_path) t Unreadable (files s)\<rparr>)
                 else if check_mark_prints then
                   (None,
                    \<lparr>stdout = out @ [Merging_completed output_path],
                     files = write_file (name output_path) t (Pdf (concat (map snd merger)))
                               (files s)\<rparr>)
                 else
                   (Some Print_error,
                    \<lparr>stdout = out,
                     files = write_file (name output_path) t (Pdf (concat (map snd merger)))
                               (files s)\<rparr>))"

subsection \<open>\<^verbatim>\<open>main\<close>\<close>

definition page_filename :: "nat \<Rightarrow> string" where
  "page_filename i = ''page_'' @ str_of_nat (i + 1) @ ''.pdf''"

text \<open>Lines 94 to 104: the loop over \<^verbatim>\<open>enumerate(URLS_TO_DOWNLOAD)\<close>.\<close>

fun fetch_loop ::
  "(nat \<Rightarrow> fetch_outcome) \<Rightarrow> string \<Rightarrow> (nat \<times> string) list \<Rightarrow> path list \<times> run_state
     \<Rightarrow> path list \<times> run_state" where
  "fetch_loop w d [] acc = acc"
| "fetch_loop w d ((i, url) # rest) (downloaded_paths, s) =
     (let filename = page_filename i;
          filepath = joinpath d filename
      in case download_page_as_pdf (w i) url filepath s of
           (Inr p, s') \<Rightarrow> fetch_loop w d rest (downloaded_paths @ [p], s')
         | (Inl e, s') \<Rightarrow> fetch_loop w d rest (downloaded_paths, print (Download_failed url) s'))"

record run_result =
  raised :: "exn option"
  paths :: "path list"
  printed :: "event list"
  directory :: node

definition main :: "world \<Rightarrow> config \<Rightarrow> node \<Rightarrow> run_result" where
  "main w cfg nd =
     (case mkdir nd of
        Inl e \<Rightarrow> \<lparr>raised = Some e, paths = [], printed = [Banner], directory = nd\<rparr>
      | Inr es \<Rightarrow>
          let s0 = \<lparr>stdout = [Banner, Directory_prepared (download_directory cfg)], files = es\<rparr>;
              (downloaded_paths, s1) =
                 fetch_loop (fetch_result w) (download_directory cfg)
                   (enumerate 0 (urls_to_download cfg)) ([], s0)
          in if length downloaded_paths > 1 then
               (case merge_pdfs_by_creation_time (write_result w) (encodes_check_mark w)
                       (download_directory cfg) (merged_filename cfg) s1 of
                  (Some e, s2) \<Rightarrow>
                    \<lparr>raised = Some e, paths = downloaded_paths, printed = stdout s2,
                     directory = Dir (files s2)\<rparr>
                | (None, s2) \<Rightarrow>
                    \<lparr>raised = None, paths = downloaded_paths,
                     printed = stdout s2 @ [Process_complete], directory = Dir (files s2)\<rparr>)
             else if length downloaded_paths = 1 then
               \<lparr>raised = None, paths = downloaded_paths,
                printed = stdout s1 @ [Only_one (name (hd downloaded_paths)), Process_complete],
                directory = Dir (files s1)\<rparr>
             else
               \<lparr>raised = None, paths = downloaded_paths,
                printed = stdout s1 @ [No_files_downloaded, Process_complete],
                directory = Dir (files s1)\<rparr>)"

subsection \<open>The script: \<^verbatim>\<open>asyncio.run(main())\<close>\<close>



section \<open>Vocabulary of the properties\<close>

text \<open>
  What the environment decided for one fetch: whether the call returned its path, and
  what it left on disk.
\<close>

definition returned :: "fetch_outcome \<Rightarrow> bool" where
  "returned oc = (case oc of Fetched t ps \<Rightarrow> True | _ \<Rightarrow> False)"

definition saved :: "fetch_outcome \<Rightarrow> (int \<times> page list) option" where
  "saved oc =
     (case oc of
        Fetched t ps \<Rightarrow> Some (t, ps)
      | Close_raises t ps \<Rightarrow> Some (t, ps)
      | _ \<Rightarrow> None)"

text \<open>The positions of the configured list whose fetch returned, in list order.\<close>

definition succeeded :: "(nat \<Rightarrow> fetch_outcome) \<Rightarrow> string list \<Rightarrow> nat list" where
  "succeeded w urls = filter (\<lambda>i. returned (w i)) [0..<length urls]"

text \<open>What one iteration of the driver's loop prints and stores.\<close>

definition fetch_events :: "fetch_outcome \<Rightarrow> string \<Rightarrow> string \<Rightarrow> event list" where
  "fetch_events oc url filename =
     (case oc of
        Navigation_raises \<Rightarrow> [Starting_download url, Download_failed url]
      | Export_raises \<Rightarrow> [Starting_download url, Pausing, Download_failed url]
      | Close_raises t ps \<Rightarrow>
          [Starting_download url, Pausing, Saved_to filename, Download_failed url]
      | Fetched t ps \<Rightarrow> [Starting_download url, Pausing, Saved_to filename])"

definition store :: "fetch_outcome \<Rightarrow> string \<Rightarrow> dirent list \<Rightarrow> dirent list" where
  "store oc filename es =
     (case saved oc of None \<Rightarrow> es | Some (t, ps) \<Rightarrow> write_file filename t (Pdf ps) es)"

definition fetch_output :: "(nat \<Rightarrow> fetch_outcome) \<Rightarrow> string list \<Rightarrow> event list" where
  "fetch_output w urls =
     concat (map (\<lambda>(i, url). fetch_events (w i) url (page_filename i)) (enumerate 0 urls))"

definition fetched_files ::
  "(nat \<Rightarrow> fetch_outcome) \<Rightarrow> string list \<Rightarrow> dirent list \<Rightarrow> dirent list" where
  "fetched_files w urls es = fold (\<lambda>i. store (w i) (page_filename i)) [0..<length urls] es"

definition after_fetch :: "world \<Rightarrow> config \<Rightarrow> dirent list \<Rightarrow> run_state" where
  "after_fetch w cfg es =
     \<lparr>stdout = [Banner, Directory_prepared (download_directory cfg)] @
               fetch_output (fetch_result w) (urls_to_download cfg),
      files = fetched_files (fetch_result w) (urls_to_download cfg) es\<rparr>"

text \<open>Lines 91 to 104 of \<^verbatim>\<open>main\<close>, run on the directory \<^verbatim>\<open>mkdir\<close> left.\<close>

definition fetch_stage :: "world \<Rightarrow> config \<Rightarrow> dirent list \<Rightarrow> path list \<times> run_state" where
  "fetch_stage w cfg es =
     fetch_loop (fetch_result w) (download_directory cfg) (enumerate 0 (urls_to_download cfg))
       ([], \<lparr>stdout = [Banner, Directory_prepared (download_directory cfg)], files = es\<rparr>)"

text \<open>What the merge loop prints for one file, and the pages the merger takes from it.\<close>

definition append_events :: "dirent \<Rightarrow> event list" where
  "append_events e =
     (case body e of
        Pdf ps \<Rightarrow> [Adding (entry_name e)]
      | _ \<Rightarrow> [Adding (entry_name e), Could_not_merge (entry_name e)])"

definition readable_pages :: "dirent \<Rightarrow> page list" where
  "readable_pages e = (case body e of Pdf ps \<Rightarrow> ps | _ \<Rightarrow> [])"

definition source_of :: "dirent \<Rightarrow> (string \<times> page list) list" where
  "source_of e = (case body e of Pdf ps \<Rightarrow> [(entry_name e, ps)] | _ \<Rightarrow> [])"

text \<open>The output file is itself one of the readable files the scan finds.\<close>

definition readable :: "dirent \<Rightarrow> bool" where
  "readable e = (case body e of Pdf ps \<Rightarrow> True | _ \<Rightarrow> False)"

definition reads_output :: "string \<Rightarrow> dirent list \<Rightarrow> bool" where
  "reads_output output_filename es =
     list_ex (\<lambda>e. entry_name e = output_filename \<and> readable e) (glob_pdf es)"

definition merged_pages :: "dirent list \<Rightarrow> page list" where
  "merged_pages es = concat (map readable_pages (pdf_files es))"

definition merge_output :: "string \<Rightarrow> dirent list \<Rightarrow> event list" where
  "merge_output output_filename es =
     Merging (length (pdf_files es)) output_filename # concat (map append_events (pdf_files es))"

text \<open>The lines only \<^verbatim>\<open>merge_pdfs_by_creation_time\<close> prints.\<close>

fun merge_event :: "event \<Rightarrow> bool" where
  "merge_event No_pdfs_found = True"
| "merge_event (Merging n f) = True"
| "merge_event (Adding f) = True"
| "merge_event (Could_not_merge f) = True"
| "merge_event (Merging_completed p) = True"
| "merge_event ev = False"

text \<open>The file names of the \<^verbatim>\<open>Adding\<close> lines, in the order printed.\<close>

fun added :: "event list \<Rightarrow> string list" where
  "added [] = []"
| "added (Adding f # evs) = f # added evs"
| "added (ev # evs) = added evs"

text \<open>The entries of the download directory at the end of a run.\<close>

definition dir_entries :: "node \<Rightarrow> dirent list" where
  "dir_entries nd = (case nd of Dir es \<Rightarrow> es | _ \<Rightarrow> [])"


section \<open>Scenarios\<close>

definition notes_txt :: dirent where
  "notes_txt = \<lparr>entry_name = ''notes.txt'', getctime = 3, body = Unreadable\<rparr>"

definition no_pdf_state :: run_state where
  "no_pdf_state = \<lparr>stdout = [], files = [notes_txt]\<rparr>"

definition page_1 :: dirent where
  "page_1 = \<lparr>entry_name = ''page_1.pdf'', getctime = 10, body = Pdf [1]\<rparr>"

definition page_2 :: dirent where
  "page_2 = \<lparr>entry_name = ''page_2.pdf'', getctime = 20, body = Pdf [2, 3]\<rparr>"

definition broken_pdf :: dirent where
  "broken_pdf = \<lparr>entry_name = ''broken.pdf'', getctime = 15, body = Unreadable\<rparr>"

definition old_report :: dirent where
  "old_report = \<lparr>entry_name = ''combined_report.pdf'', getctime = 5, body = Pdf [8, 9]\<rparr>"

definition scan_state :: run_state where
  "scan_state = \<lparr>stdout = [], files = [page_2, notes_txt, broken_pdf, page_1]\<rparr>"

definition rerun_state :: run_state where
  "rerun_state = \<lparr>stdout = [], files = [old_report, page_1, page_2]\<rparr>"

definition all_fetched :: world where
  "all_fetched =
     \<lparr>fetch_result = (\<lambda>i. Fetched (100 + int i) [100 + i]), write_result = Written 200,
      encodes_check_mark = True\<rparr>"

definition second_fails :: world where
  "second_fails =
     \<lparr>fetch_result = (\<lambda>i. if i = 1 then Navigation_raises else Fetched (100 + int i) [100 + i]),
      write_result = Written 200, encodes_check_mark = True\<rparr>"

definition first_only :: world where
  "first_only =
     \<lparr>fetch_result = (\<lambda>i. if i = 0 then Fetched 100 [100] else Navigation_raises),
      write_result = Written 200, encodes_check_mark = True\<rparr>"

definition none_fetched :: world where
  "none_fetched =
     \<lparr>fetch_result = (\<lambda>i. Export_raises), write_result = Written 200,
      encodes_check_mark = True\<rparr>"



definition used_directory :: node where
  "used_directory = Dir [old_report, page_1, page_2]"







section \<open>Auxiliary facts\<close>

subsection \<open>File names\<close>

lemma digit_inj: "a < 10 \<Longrightarrow> b < 10 \<Longrightarrow> digit a = digit b \<Longrightarrow> a = b"
proof -
  assume a: "a < 10" and b: "b < 10" and e: "digit a = digit b"
  have d: "distinct ''0123456789''" by simp
  have "length ''0123456789'' = 10" by simp
  with a b e d show ?thesis
    unfolding digit_def by (metis nth_eq_iff_index_eq)
qed

lemma str_of_nat_nonempty: "str_of_nat n \<noteq> []"
  by (subst str_of_nat.simps) simp

lemma last_str_of_nat: "last (str_of_nat n) = digit (n mod 10)"
  by (subst str_of_nat.simps) simp

lemma butlast_str_of_nat:
  "butlast (str_of_nat n) = (if n < 10 then [] else str_of_nat (n div 10))"
  by (subst str_of_nat.simps) simp

lemma str_of_nat_inj: "str_of_nat a = str_of_nat b \<Longrightarrow> a = b"
proof (induction a arbitrary: b rule: str_of_nat.induct)
  case (1 n)
  from "1.prems" have "digit (n mod 10) = digit (b mod 10)"
    by (metis last_str_of_nat)
  then have m: "n mod 10 = b mod 10"
    by (intro digit_inj) simp_all
  from "1.prems" have bl: "butlast (str_of_nat n) = butlast (str_of_nat b)" by simp
  show ?case
  proof (cases "n < 10")
    case True
    with bl have "b < 10"
      using str_of_nat_nonempty[of "b div 10"]
      by (auto simp: butlast_str_of_nat split: if_splits)
    with True m show ?thesis by simp
  next
    case False
    with bl have e: "str_of_nat (n div 10) = str_of_nat (b div 10)"
      using str_of_nat_nonempty[of "n div 10"]
      by (auto simp: butlast_str_of_nat split: if_splits)
    from "1.IH"[OF False e] have "n div 10 = b div 10" .
    with m show ?thesis by (metis div_mult_mod_eq)
  qed
qed

lemma page_filename_inj: "page_filename i = page_filename j \<Longrightarrow> i = j"
  unfolding page_filename_def using str_of_nat_inj by fastforce

lemma suffix_page_filename: "suffix ''.pdf'' (page_filename i)"
  unfolding page_filename_def by (simp add: suffix_def)

subsection \<open>The directory\<close>

lemma lookup_write_file:
  "lookup m (write_file n t b es) =
     (if m = n then Some \<lparr>entry_name = n, getctime = t, body = b\<rparr> else lookup m es)"
  by (induction es) (auto simp: lookup_def)

lemma names_write_file:
  "entry_name ` set (write_file n t b es) = insert n (entry_name ` set es)"
  by (induction es) auto


lemma others_write_file:
  "filter (\<lambda>e. entry_name e \<noteq> n) (write_file n t b es) = filter (\<lambda>e. entry_name e \<noteq> n) es"
  by (induction es) auto


subsection \<open>The merge loop and the merge stage in closed form\<close>

lemma append_all_eq:
  "append_all fs (out, merger) =
     (out @ concat (map append_events fs), merger @ concat (map source_of fs))"
  by (induction fs arbitrary: out merger)
     (simp_all add: append_events_def source_of_def split: body.split)

lemma pages_of_sources: "concat (map snd (concat (map source_of fs))) = concat (map readable_pages fs)"
  by (induction fs) (simp_all add: source_of_def readable_pages_def split: body.split)

lemma names_of_sources:
  "(n \<in> fst ` (\<Union>e\<in>set fs. set (source_of e))) =
     list_ex (\<lambda>e. entry_name e = n \<and> readable e) fs"
proof -
  have "(n \<in> fst ` set (source_of e)) = (entry_name e = n \<and> readable e)" for e
    by (cases "body e") (auto simp: source_of_def readable_def)
  then show ?thesis
    by (auto simp: list_ex_iff image_UN)
qed

lemma output_among_sources:
  "(out \<in> fst ` (\<Union>e\<in>set (pdf_files es). set (source_of e))) = reads_output out es"
  unfolding names_of_sources by (simp add: reads_output_def pdf_files_def list_ex_iff)

lemma merge_eq:
  "merge_pdfs_by_creation_time wo enc d output_filename s =
     (if getctime_raises (files s) then (Some Stat_error, s)
      else if pdf_files (files s) = [] then (None, print No_pdfs_found s)
      else case wo of
             Open_raises \<Rightarrow>
               (Some Open_error,
                \<lparr>stdout = stdout s @ merge_output output_filename (files s), files = files s\<rparr>)
           | Write_raises t \<Rightarrow>
               (Some Write_error,
                \<lparr>stdout = stdout s @ merge_output output_filename (files s),
                 files = write_file output_filename t Unreadable (files s)\<rparr>)
           | Written t \<Rightarrow>
               if reads_output output_filename (files s) then
                 (Some Write_error,
                  \<lparr>stdout = stdout s @ merge_output output_filename (files s),
                   files = write_file output_filename t Unreadable (files s)\<rparr>)
               else if enc then
                 (None,
                  \<lparr>stdout = stdout s @ merge_output output_filename (files s) @
                            [Merging_completed (d, output_filename)],
                   files = write_file output_filename t (Pdf (merged_pages (files s))) (files s)\<rparr>)
               else
                 (Some Print_error,
                  \<lparr>stdout = stdout s @ merge_output output_filename (files s),
                   files = write_file output_filename t (Pdf (merged_pages (files s))) (files s)\<rparr>))"
  by (simp add: merge_pdfs_by_creation_time_def Let_def append_all_eq merge_output_def
        merged_pages_def joinpath_def name_def pages_of_sources output_among_sources
        split: write_outcome.split)

subsection \<open>The fetch loop and the driver in closed form\<close>

lemma fetch_loop_step:
  "fetch_loop w d ((i, url) # rest) (ps, s) =
     fetch_loop w d rest
       (ps @ (if returned (w i) then [joinpath d (page_filename i)] else []),
        \<lparr>stdout = stdout s @ fetch_events (w i) url (page_filename i),
         files = store (w i) (page_filename i) (files s)\<rparr>)"
  by (cases s; cases "w i")
     (simp_all add: returned_def saved_def store_def fetch_events_def print_def joinpath_def
        name_def Let_def)

lemma fetch_loop_eq:
  "fetch_loop w d (enumerate k urls) (ps, s) =
     (ps @ map (\<lambda>i. joinpath d (page_filename i))
             (filter (\<lambda>i. returned (w i)) [k..<k + length urls]),
      \<lparr>stdout = stdout s @
                 concat (map (\<lambda>(i, url). fetch_events (w i) url (page_filename i))
                           (enumerate k urls)),
       files = fold (\<lambda>i. store (w i) (page_filename i)) [k..<k + length urls] (files s)\<rparr>)"
proof (induction urls arbitrary: k ps s)
  case Nil
  show ?case by simp
next
  case (Cons url urls)
  have u: "[k..<k + length (url # urls)] = k # [Suc k..<Suc k + length urls]"
    by (simp add: upt_rec)
  show ?case
    unfolding enumerate_simps fetch_loop_step Cons.IH u
    by simp
qed

lemma fetch_stage_eq:
  "fetch_stage w cfg es =
     (map (\<lambda>i. joinpath (download_directory cfg) (page_filename i))
        (succeeded (fetch_result w) (urls_to_download cfg)),
      after_fetch w cfg es)"
  by (simp add: fetch_stage_def fetch_loop_eq succeeded_def after_fetch_def fetch_output_def
        fetched_files_def)

lemma main_eq:
  assumes "mkdir nd = Inr es"
  shows "main w cfg nd =
     (let dp = map (\<lambda>i. joinpath (download_directory cfg) (page_filename i))
                 (succeeded (fetch_result w) (urls_to_download cfg));
          s1 = after_fetch w cfg es
      in if length dp > 1 then
           (case merge_pdfs_by_creation_time (write_result w) (encodes_check_mark w)
                   (download_directory cfg) (merged_filename cfg) s1 of
              (Some e, s2) \<Rightarrow>
                \<lparr>raised = Some e, paths = dp, printed = stdout s2, directory = Dir (files s2)\<rparr>
            | (None, s2) \<Rightarrow>
                \<lparr>raised = None, paths = dp, printed = stdout s2 @ [Process_complete],
                 directory = Dir (files s2)\<rparr>)
         else if length dp = 1 then
           \<lparr>raised = None, paths = dp,
            printed = stdout s1 @ [Only_one (name (hd dp)), Process_complete],
            directory = Dir (files s1)\<rparr>
         else
           \<lparr>raised = None, paths = dp,
            printed = stdout s1 @ [No_files_downloaded, Process_complete],
            directory = Dir (files s1)\<rparr>)"
  unfolding main_def assms sum.case fetch_stage_eq [unfolded fetch_stage_def] Let_def prod.case
  by (rule refl)

subsection \<open>What the fetch loop leaves in the directory and on standard output\<close>



lemma names_store:
  "entry_name ` set (store oc n es) =
     entry_name ` set es \<union> (if saved oc = None then {} else {n})"
  by (auto simp: store_def names_write_file split: option.splits)

lemma lookup_store:
  "lookup m (store oc n es) =
     (case saved oc of
        None \<Rightarrow> lookup m es
      | Some (t, ps) \<Rightarrow>
          if m = n then Some \<lparr>entry_name = n, getctime = t, body = Pdf ps\<rparr> else lookup m es)"
  by (simp add: store_def lookup_write_file split: option.split)

lemma names_fold_store:
  "entry_name ` set (fold (\<lambda>i. store (w i) (page_filename i)) js es) =
     entry_name ` set es \<union> page_filename ` {i \<in> set js. saved (w i) \<noteq> None}"
proof (induction js arbitrary: es)
  case Nil
  show ?case by simp
next
  case (Cons j js)
  show ?case
    unfolding fold_simps Cons.IH names_store by auto
qed

lemma lookup_fold_store_other:
  "(\<And>i. i \<in> set js \<Longrightarrow> saved (w i) \<noteq> None \<Longrightarrow> page_filename i \<noteq> m) \<Longrightarrow>
     lookup m (fold (\<lambda>i. store (w i) (page_filename i)) js es) = lookup m es"
proof (induction js arbitrary: es)
  case Nil
  show ?case by simp
next
  case (Cons j js)
  have "lookup m (fold (\<lambda>i. store (w i) (page_filename i)) js (store (w j) (page_filename j) es)) =
        lookup m (store (w j) (page_filename j) es)"
    by (rule Cons.IH) (simp add: Cons.prems)
  also have "\<dots> = lookup m es"
    using Cons.prems [of j]
    by (auto simp: lookup_store split: option.split)
  finally show ?case by simp
qed

lemma lookup_fold_store_hit:
  "distinct js \<Longrightarrow> i \<in> set js \<Longrightarrow> saved (w i) = Some (t, ps) \<Longrightarrow>
     lookup (page_filename i) (fold (\<lambda>i. store (w i) (page_filename i)) js es) =
       Some \<lparr>entry_name = page_filename i, getctime = t, body = Pdf ps\<rparr>"
proof (induction js arbitrary: es)
  case Nil
  then show ?case by simp
next
  case (Cons j js)
  show ?case
  proof (cases "j = i")
    case True
    with Cons.prems have "i \<notin> set js" by simp
    then have "lookup (page_filename i)
                 (fold (\<lambda>i. store (w i) (page_filename i)) js (store (w i) (page_filename i) es)) =
               lookup (page_filename i) (store (w i) (page_filename i) es)"
      by (intro lookup_fold_store_other) (auto dest: page_filename_inj)
    also have "\<dots> = Some \<lparr>entry_name = page_filename i, getctime = t, body = Pdf ps\<rparr>"
      using Cons.prems(3) by (simp add: lookup_store)
    finally show ?thesis using True by simp
  next
    case False
    with Cons.prems have "distinct js" "i \<in> set js" by simp_all
    from Cons.IH [OF this Cons.prems(3)] show ?thesis by simp
  qed
qed







lemma enumerate_member: "i < length urls \<Longrightarrow> (i, urls ! i) \<in> set (enumerate 0 urls)"
  by (simp add: in_set_enumerate_eq)

lemma fetch_events_printed:
  "i < length urls \<Longrightarrow> ev \<in> set (fetch_events (w i) (urls ! i) (page_filename i)) \<Longrightarrow>
     ev \<in> set (fetch_output w urls)"
  unfolding fetch_output_def using enumerate_member [of i urls] by fastforce



lemma saved_to_printed:
  "i < length urls \<Longrightarrow> saved (w i) \<noteq> None \<Longrightarrow>
     Saved_to (page_filename i) \<in> set (fetch_output w urls)"
  by (rule fetch_events_printed [of i])
     (simp_all add: fetch_events_def saved_def split: fetch_outcome.splits)

lemma fetch_events_no_merge_event:
  "ev \<in> set (fetch_events oc url f) \<Longrightarrow> \<not> merge_event ev"
  by (cases oc) (auto simp: fetch_events_def)

lemma fetch_output_no_merge_event: "ev \<in> set (fetch_output w urls) \<Longrightarrow> \<not> merge_event ev"
  by (auto simp: fetch_output_def dest: fetch_events_no_merge_event)

lemma returned_saved: "returned oc \<Longrightarrow> saved oc \<noteq> None"
  by (cases oc) (simp_all add: returned_def saved_def)

lemma pdf_files_after_fetch_nonempty:
  assumes "succeeded (fetch_result w) (urls_to_download cfg) \<noteq> []"
  shows "pdf_files (files (after_fetch w cfg es)) \<noteq> []"
proof -
  from assms obtain i where i: "i < length (urls_to_download cfg)" "returned (fetch_result w i)"
    by (auto simp: succeeded_def filter_empty_conv)
  then have "page_filename i \<in> entry_name ` set (files (after_fetch w cfg es))"
    by (auto simp: after_fetch_def fetched_files_def names_fold_store dest: returned_saved)
  then obtain e where "e \<in> set (files (after_fetch w cfg es))" "entry_name e = page_filename i"
    by auto
  then have "e \<in> set (pdf_files (files (after_fetch w cfg es)))"
    by (simp add: pdf_files_def glob_pdf_def suffix_page_filename)
  then show ?thesis by auto
qed


subsection \<open>The scenarios\<close>

lemmas scenario_defs =
  page_1_def page_2_def broken_pdf_def old_report_def notes_txt_def scan_state_def
  rerun_state_def no_pdf_state_def MERGED_FILENAME_def DOWNLOAD_DIRECTORY_def

lemma pdf_files_scan_state: "pdf_files (files scan_state) = [page_1, broken_pdf, page_2]"
  by (simp add: pdf_files_def glob_pdf_def scenario_defs suffix_to_prefix)

lemma pdf_files_rerun_state: "pdf_files (files rerun_state) = [old_report, page_1, page_2]"
  by (simp add: pdf_files_def glob_pdf_def scenario_defs suffix_to_prefix)

subsection \<open>The files the merge loop reports\<close>

lemma added_append: "added (xs @ ys) = added xs @ added ys"
  by (induction xs rule: added.induct) simp_all

lemma added_append_events: "added (concat (map append_events fs)) = map entry_name fs"
  by (induction fs) (simp_all add: append_events_def split: body.split)

lemma added_merge:
  "added (stdout (snd (merge_pdfs_by_creation_time wo enc d out s))) =
     added (stdout s) @ (if getctime_raises (files s) then [] else map entry_name (pdf_files (files s)))"
  by (simp add: merge_eq print_def merge_output_def added_append added_append_events
        split: write_outcome.split)

subsection \<open>The scenarios, evaluated\<close>

lemma stat_scan_state: "\<not> getctime_raises (files scan_state)"
  by (simp add: getctime_raises_def glob_pdf_def scenario_defs suffix_to_prefix)

lemma stat_rerun_state: "\<not> getctime_raises (files rerun_state)"
  by (simp add: getctime_raises_def glob_pdf_def scenario_defs suffix_to_prefix)

lemma output_scan_state: "\<not> reads_output MERGED_FILENAME (files scan_state)"
  by (simp add: reads_output_def glob_pdf_def scenario_defs suffix_to_prefix)

lemma output_rerun_state: "reads_output MERGED_FILENAME (files rerun_state)"
  by (simp add: reads_output_def glob_pdf_def readable_def scenario_defs suffix_to_prefix)

lemma page_filename_0: "page_filename 0 = ''page_1.pdf''"
  by (simp add: page_filename_def str_of_nat.simps digit_def)

lemma page_filename_1: "page_filename (Suc 0) = ''page_2.pdf''"
  by (simp add: page_filename_def str_of_nat.simps digit_def)

lemma page_filename_2: "page_filename (Suc (Suc 0)) = ''page_3.pdf''"
  by (simp add: page_filename_def str_of_nat.simps digit_def)

lemmas run_defs =
  main_def configuration_def URLS_TO_DOWNLOAD_def DOWNLOAD_DIRECTORY_def MERGED_FILENAME_def
  page_filename_0 page_filename_1 page_filename_2 joinpath_def name_def print_def Let_def
  merge_pdfs_by_creation_time_def pdf_files_def glob_pdf_def getctime_raises_def
  suffix_to_prefix page_1_def page_2_def old_report_def


lemma succeeded_second_fails: "succeeded (fetch_result second_fails) URLS_TO_DOWNLOAD = [0, 2]"
  by (simp add: succeeded_def second_fails_def URLS_TO_DOWNLOAD_def returned_def)

lemma succeeded_all_fetched: "succeeded (fetch_result all_fetched) URLS_TO_DOWNLOAD = [0, 1, 2]"
  by (simp add: succeeded_def all_fetched_def URLS_TO_DOWNLOAD_def returned_def)


lemma succeeded_first_only: "succeeded (fetch_result first_only) URLS_TO_DOWNLOAD = [0]"
  by (simp add: succeeded_def first_only_def URLS_TO_DOWNLOAD_def returned_def)

lemma succeeded_none_fetched: "succeeded (fetch_result none_fetched) URLS_TO_DOWNLOAD = []"
  by (simp add: succeeded_def none_fetched_def URLS_TO_DOWNLOAD_def returned_def)

lemma run_first_only_used:
  "mkdir used_directory = Inr [old_report, page_1, page_2]"
  by (simp add: used_directory_def)

subsection \<open>The driver after the fetch loop\<close>




lemma printed_without_merge:
  assumes "mkdir nd = Inr es"
    and "length (succeeded (fetch_result w) (urls_to_download cfg)) \<le> 1"
  shows "\<not> list_ex merge_event (printed (main w cfg nd))"
    and "directory (main w cfg nd) = Dir (files (snd (fetch_stage w cfg es)))"
    and "raised (main w cfg nd) = None"
  using assms(2)
  by (auto simp: main_eq [OF assms(1)] Let_def fetch_stage_eq after_fetch_def list_ex_iff
        dest: fetch_output_no_merge_event)

lemma merge_stage_seen:
  assumes "mkdir nd = Inr es"
    and "2 \<le> length (succeeded (fetch_result w) (urls_to_download cfg))"
  shows "list_ex merge_event (printed (main w cfg nd)) \<or> raised (main w cfg nd) = Some Stat_error"
proof -
  from assms(2) have "succeeded (fetch_result w) (urls_to_download cfg) \<noteq> []" by auto
  then have "pdf_files (files (after_fetch w cfg es)) \<noteq> []"
    by (rule pdf_files_after_fetch_nonempty)
  with assms(2) show ?thesis
    by (simp add: main_eq [OF assms(1)] Let_def merge_eq merge_output_def
          split: write_outcome.split)
qed

lemma main_of_merge:
  assumes "mkdir nd = Inr es"
    and "2 \<le> length (succeeded (fetch_result w) (urls_to_download cfg))"
  shows "raised (main w cfg nd) =
           fst (merge_pdfs_by_creation_time (write_result w) (encodes_check_mark w)
                  (download_directory cfg) (merged_filename cfg) (snd (fetch_stage w cfg es)))"
    and "directory (main w cfg nd) =
           Dir (files (snd (merge_pdfs_by_creation_time (write_result w) (encodes_check_mark w)
                  (download_directory cfg) (merged_filename cfg) (snd (fetch_stage w cfg es)))))"
    and "printed (main w cfg nd) =
           stdout (snd (merge_pdfs_by_creation_time (write_result w) (encodes_check_mark w)
                  (download_directory cfg) (merged_filename cfg) (snd (fetch_stage w cfg es)))) @
           (if raised (main w cfg nd) = None then [Process_complete] else [])"
  using assms(2)
  by (cases "merge_pdfs_by_creation_time (write_result w) (encodes_check_mark w)
               (download_directory cfg) (merged_filename cfg) (after_fetch w cfg es)";
      cases "fst (merge_pdfs_by_creation_time (write_result w) (encodes_check_mark w)
               (download_directory cfg) (merged_filename cfg) (after_fetch w cfg es))";
      simp add: main_eq [OF assms(1)] Let_def fetch_stage_eq)+

lemma stdout_after_fetch_printed:
  assumes "mkdir nd = Inr es" and "ev \<in> set (stdout (after_fetch w cfg es))"
  shows "ev \<in> set (printed (main w cfg nd))"
  using assms(2)
  by (auto simp: main_eq [OF assms(1)] Let_def merge_eq print_def split: write_outcome.split)

lemma paths_main:
  assumes "mkdir nd = Inr es"
  shows "paths (main w cfg nd) =
           map (\<lambda>i. joinpath (download_directory cfg) (page_filename i))
             (succeeded (fetch_result w) (urls_to_download cfg))"
  by (cases "length (succeeded (fetch_result w) (urls_to_download cfg))" rule: linorder_cases [of _ 1];
      cases "merge_pdfs_by_creation_time (write_result w) (encodes_check_mark w)
               (download_directory cfg) (merged_filename cfg) (after_fetch w cfg es)";
      cases "fst (merge_pdfs_by_creation_time (write_result w) (encodes_check_mark w)
               (download_directory cfg) (merged_filename cfg) (after_fetch w cfg es))")
     (auto simp: main_eq [OF assms(1)] Let_def)

lemma merged_file_written:
  assumes "mkdir nd = Inr es"
    and "2 \<le> length (succeeded (fetch_result w) (urls_to_download cfg))"
    and "write_result w = Written t"
    and "\<not> getctime_raises (files (after_fetch w cfg es))"
    and "\<not> reads_output (merged_filename cfg) (files (after_fetch w cfg es))"
  shows "lookup (merged_filename cfg) (dir_entries (directory (main w cfg nd))) =
           Some \<lparr>entry_name = merged_filename cfg, getctime = t,
                 body = Pdf (merged_pages (files (after_fetch w cfg es)))\<rparr>"
    and "encodes_check_mark w \<Longrightarrow> raised (main w cfg nd) = None"
    and "encodes_check_mark w \<Longrightarrow>
           Merging_completed (joinpath (download_directory cfg) (merged_filename cfg))
             \<in> set (printed (main w cfg nd))"
proof -
  from assms(2) have "succeeded (fetch_result w) (urls_to_download cfg) \<noteq> []" by auto
  then have ne: "pdf_files (files (after_fetch w cfg es)) \<noteq> []"
    by (rule pdf_files_after_fetch_nonempty)
  from ne assms(2-5)
  show "lookup (merged_filename cfg) (dir_entries (directory (main w cfg nd))) =
           Some \<lparr>entry_name = merged_filename cfg, getctime = t,
                 body = Pdf (merged_pages (files (after_fetch w cfg es)))\<rparr>"
    by (simp add: main_eq [OF assms(1)] Let_def merge_eq dir_entries_def lookup_write_file)
  from ne assms(2-5) show "encodes_check_mark w \<Longrightarrow> raised (main w cfg nd) = None"
    by (simp add: main_eq [OF assms(1)] Let_def merge_eq)
  from ne assms(2-5)
  show "encodes_check_mark w \<Longrightarrow>
          Merging_completed (joinpath (download_directory cfg) (merged_filename cfg))
            \<in> set (printed (main w cfg nd))"
    by (simp add: main_eq [OF assms(1)] Let_def merge_eq joinpath_def)
qed

lemma merged_pages_all_fetched:
  "merged_pages (files (snd (fetch_stage all_fetched configuration []))) = [100, 101, 102]"
  by (simp add: fetch_stage_def merged_pages_def readable_pages_def run_defs all_fetched_def)

lemma stat_all_fetched: "\<not> getctime_raises (files (snd (fetch_stage all_fetched configuration [])))"
  by (simp add: fetch_stage_def run_defs all_fetched_def)

lemma output_all_fetched:
  "\<not> reads_output (merged_filename configuration)
       (files (snd (fetch_stage all_fetched configuration [])))"
  by (simp add: fetch_stage_def reads_output_def run_defs all_fetched_def)



lemma raised_second_fails: "raised (main second_fails configuration Absent) = None"
  by (simp add: run_defs second_fails_def)









subsection \<open>One failed fetch into a directory without PDF files\<close>











section \<open>The merge stage\<close>

text \<open>
  C6. When the directory scan matches no \<^verbatim>\<open>*.pdf\<close> entry, the merge operation only
  prints that there is nothing to merge: it returns without an error and the directory
  is what it was, so no output file is written.
\<close>

theorem merge_no_pdfs_is_noop:
  "glob_pdf (files s) = [] \<Longrightarrow>
     merge_pdfs_by_creation_time wo enc d output_filename s =
       (None, s\<lparr>stdout := stdout s @ [No_pdfs_found]\<rparr>) \<and>
     files (snd (merge_pdfs_by_creation_time wo enc d output_filename s)) = files s"
  by (simp add: merge_pdfs_by_creation_time_def getctime_raises_def pdf_files_def print_def)

theorem merge_no_pdfs_is_noop_witness:
  "glob_pdf (files no_pdf_state) = [] \<and>
   merge_pdfs_by_creation_time (Written 7) True DOWNLOAD_DIRECTORY MERGED_FILENAME no_pdf_state =
     (None, \<lparr>stdout = [No_pdfs_found], files = [notes_txt]\<rparr>)"
proof -
  have g: "glob_pdf (files no_pdf_state) = []"
    by (simp add: glob_pdf_def no_pdf_state_def notes_txt_def suffix_to_prefix)
  from merge_no_pdfs_is_noop [OF g, of "Written 7" True DOWNLOAD_DIRECTORY MERGED_FILENAME] g
  show ?thesis by (simp add: no_pdf_state_def)
qed



text \<open>
  C5. A file of the sorted list on which \<^verbatim>\<open>append\<close> raises is reported and skipped:
  the files before it and after it are all processed, the merge does not fail because
  of it, and the merged document holds the pages of the others.
\<close>

theorem merge_skips_file_that_fails_to_append:
  assumes "pdf_files (files s) = before @ e # rest" and "body e = Unreadable"
    and "\<not> getctime_raises (files s)"
  shows "stdout (snd (merge_pdfs_by_creation_time wo enc d out s)) =
           stdout s @ Merging (length (before @ e # rest)) out #
           concat (map append_events before) @
           [Adding (entry_name e), Could_not_merge (entry_name e)] @
           concat (map append_events rest) @
           (if fst (merge_pdfs_by_creation_time wo enc d out s) = None
            then [Merging_completed (d, out)] else []) \<and>
         (\<not> reads_output out (files s) \<longrightarrow>
            fst (merge_pdfs_by_creation_time (Written t) True d out s) = None \<and>
            lookup out (files (snd (merge_pdfs_by_creation_time (Written t) enc d out s))) =
              Some \<lparr>entry_name = out, getctime = t,
                    body = Pdf (concat (map readable_pages before) @
                                concat (map readable_pages rest))\<rparr>)"
  using assms
  by (simp add: merge_eq merge_output_def merged_pages_def lookup_write_file append_events_def
        readable_pages_def split: write_outcome.split)

theorem merge_skips_file_that_fails_to_append_witness:
  "pdf_files (files scan_state) = [page_1] @ broken_pdf # [page_2] \<and>
   body broken_pdf = Unreadable \<and> \<not> getctime_raises (files scan_state) \<and>
   \<not> reads_output MERGED_FILENAME (files scan_state) \<and>
   stdout (snd (merge_pdfs_by_creation_time (Written 30) True DOWNLOAD_DIRECTORY
      MERGED_FILENAME scan_state)) =
     [Merging 3 MERGED_FILENAME, Adding ''page_1.pdf'', Adding ''broken.pdf'',
      Could_not_merge ''broken.pdf'', Adding ''page_2.pdf'',
      Merging_completed (DOWNLOAD_DIRECTORY, MERGED_FILENAME)] \<and>
   lookup MERGED_FILENAME
     (files (snd (merge_pdfs_by_creation_time (Written 30) True DOWNLOAD_DIRECTORY
        MERGED_FILENAME scan_state))) =
     Some \<lparr>entry_name = MERGED_FILENAME, getctime = 30, body = Pdf [1, 2, 3]\<rparr>"
proof -
  have a: "pdf_files (files scan_state) = [page_1] @ broken_pdf # [page_2]"
    by (simp add: pdf_files_scan_state)
  have b: "body broken_pdf = Unreadable"
    by (simp add: broken_pdf_def)
  note c = stat_scan_state and o = output_scan_state
  from merge_skips_file_that_fails_to_append
         [OF a b c, of "Written 30" True DOWNLOAD_DIRECTORY MERGED_FILENAME 30] a b c o
  show ?thesis
    by (simp add: append_events_def readable_pages_def page_1_def page_2_def broken_pdf_def
          scan_state_def)
qed

text \<open>
  C8. On a directory that still holds the merged document of an earlier run, the merge
  operation does not do what the claim says: \<^verbatim>\<open>combined_report.pdf\<close> matches the scan
  and is appended as a source, opening the output file truncates that source, and
  \<^verbatim>\<open>merger.write\<close> raises. The earlier merged document is left truncated, no merged
  document is written, and the exception leaves the function.
\<close>

theorem rerun_truncates_previous_output:
  "merge_pdfs_by_creation_time (Written 30) True DOWNLOAD_DIRECTORY MERGED_FILENAME rerun_state =
     (Some Write_error,
      \<lparr>stdout = [Merging 3 MERGED_FILENAME, Adding ''combined_report.pdf'',
                 Adding ''page_1.pdf'', Adding ''page_2.pdf''],
       files = [\<lparr>entry_name = MERGED_FILENAME, getctime = 30, body = Unreadable\<rparr>,
                page_1, page_2]\<rparr>)"
  by (simp add: merge_eq stat_rerun_state output_rerun_state pdf_files_rerun_state
        merge_output_def append_events_def)
     (simp add: scenario_defs)

text \<open>
  C9. An entry of the directory that bears the merged output's file name, that name
  ending in \<^verbatim>\<open>.pdf\<close>, is among the inputs of the merge operation: it is in the sorted
  list, and when it is a readable PDF the merger takes it as a source with its pages,
  so that writing the output over it fails and leaves it truncated; when it is not
  readable, the failed attempt to append it is reported.
\<close>

theorem merge_reads_previous_output:
  assumes "e \<in> set (files s)" and "entry_name e = out" and "suffix ''.pdf'' out"
  shows "e \<in> set (pdf_files (files s)) \<and>
         (body e = Pdf ps \<longrightarrow>
            (out, ps) \<in> set (snd (append_all (pdf_files (files s)) (evs, [])))) \<and>
         (body e = Pdf ps \<and> \<not> getctime_raises (files s) \<longrightarrow>
            out \<in> set (added (stdout (snd (merge_pdfs_by_creation_time (Written t) enc d out s)))) \<and>
            fst (merge_pdfs_by_creation_time (Written t) enc d out s) = Some Write_error \<and>
            lookup out (files (snd (merge_pdfs_by_creation_time (Written t) enc d out s))) =
              Some \<lparr>entry_name = out, getctime = t, body = Unreadable\<rparr>) \<and>
         (body e = Unreadable \<and> \<not> getctime_raises (files s) \<longrightarrow>
            Could_not_merge out \<in> set (stdout (snd (merge_pdfs_by_creation_time wo enc d out s))))"
proof -
  have in_files: "e \<in> set (pdf_files (files s))"
    using assms by (simp add: pdf_files_def glob_pdf_def)
  then have ne: "pdf_files (files s) \<noteq> []" by auto
  have src: "(out, ps) \<in> set (snd (append_all (pdf_files (files s)) (evs, [])))"
    if "body e = Pdf ps"
  proof -
    from that assms(2) have "(out, ps) \<in> set (source_of e)"
      by (simp add: source_of_def)
    with in_files show ?thesis
      by (auto simp: append_all_eq)
  qed
  have ro: "reads_output out (files s)" if "body e = Pdf ps"
    using that assms in_files
    by (auto simp: reads_output_def list_ex_iff readable_def pdf_files_def)
  have wr: "out \<in> set (added (stdout (snd (merge_pdfs_by_creation_time (Written t) enc d out s)))) \<and>
            fst (merge_pdfs_by_creation_time (Written t) enc d out s) = Some Write_error \<and>
            lookup out (files (snd (merge_pdfs_by_creation_time (Written t) enc d out s))) =
              Some \<lparr>entry_name = out, getctime = t, body = Unreadable\<rparr>"
    if "body e = Pdf ps" and "\<not> getctime_raises (files s)"
  proof -
    have "out \<in> entry_name ` set (pdf_files (files s))"
      using in_files assms(2) by auto
    with that(2) ro [OF that(1)] ne show ?thesis
      by (simp add: added_merge) (simp add: merge_eq lookup_write_file)
  qed
  have un: "Could_not_merge out \<in> set (stdout (snd (merge_pdfs_by_creation_time wo enc d out s)))"
    if "body e = Unreadable" and "\<not> getctime_raises (files s)"
  proof -
    from that(1) assms(2) have "Could_not_merge out \<in> set (append_events e)"
      by (simp add: append_events_def)
    with in_files have "Could_not_merge out \<in> set (merge_output out (files s))"
      by (auto simp: merge_output_def)
    with that(2) ne show ?thesis
      by (auto simp: merge_eq split: write_outcome.split)
  qed
  from in_files src wr un show ?thesis by blast
qed

theorem merge_reads_previous_output_witness:
  "old_report \<in> set (files rerun_state) \<and> entry_name old_report = MERGED_FILENAME \<and>
   suffix ''.pdf'' MERGED_FILENAME \<and> body old_report = Pdf [8, 9] \<and>
   \<not> getctime_raises (files rerun_state) \<and>
   old_report \<in> set (pdf_files (files rerun_state)) \<and>
   (MERGED_FILENAME, [8, 9]) \<in> set (snd (append_all (pdf_files (files rerun_state)) ([], []))) \<and>
   fst (merge_pdfs_by_creation_time (Written 30) True DOWNLOAD_DIRECTORY MERGED_FILENAME
          rerun_state) = Some Write_error \<and>
   lookup MERGED_FILENAME
     (files (snd (merge_pdfs_by_creation_time (Written 30) True DOWNLOAD_DIRECTORY
        MERGED_FILENAME rerun_state))) =
     Some \<lparr>entry_name = MERGED_FILENAME, getctime = 30, body = Unreadable\<rparr>"
proof -
  have a: "old_report \<in> set (files rerun_state)" by (simp add: rerun_state_def)
  have b: "entry_name old_report = MERGED_FILENAME"
    by (simp add: old_report_def MERGED_FILENAME_def)
  have c: "suffix ''.pdf'' MERGED_FILENAME"
    by (simp add: MERGED_FILENAME_def suffix_to_prefix)
  have p: "body old_report = Pdf [8, 9]" by (simp add: old_report_def)
  note g = stat_rerun_state
  from merge_reads_previous_output
         [OF a b c, of "[8, 9]" "[]" 30 True DOWNLOAD_DIRECTORY] a b c p g
  show ?thesis by simp
qed

section \<open>The driver\<close>




text \<open>
  C3. Once the directory exists and every target has been attempted, the driver calls
  the merge stage exactly when two or more fetches returned: then the error, the
  directory and the output of the run are those of that call (the call shows in a line
  of the merge stage, or in the exception of its sort). With exactly one returned fetch
  the driver names that single file and with none it reports that nothing was
  downloaded, and in both cases the directory stays as the fetches left it.
\<close>

theorem driver_merges_iff_two_or_more_fetched:
  assumes "mkdir nd = Inr es"
  shows "(list_ex merge_event (printed (main w cfg nd)) \<or>
            raised (main w cfg nd) = Some Stat_error) =
           (2 \<le> length (succeeded (fetch_result w) (urls_to_download cfg))) \<and>
         (2 \<le> length (succeeded (fetch_result w) (urls_to_download cfg)) \<longrightarrow>
            raised (main w cfg nd) =
              fst (merge_pdfs_by_creation_time (write_result w) (encodes_check_mark w)
                     (download_directory cfg) (merged_filename cfg)
                     (snd (fetch_stage w cfg es))) \<and>
            directory (main w cfg nd) =
              Dir (files (snd (merge_pdfs_by_creation_time (write_result w)
                     (encodes_check_mark w) (download_directory cfg) (merged_filename cfg)
                     (snd (fetch_stage w cfg es))))) \<and>
            printed (main w cfg nd) =
              stdout (snd (merge_pdfs_by_creation_time (write_result w)
                     (encodes_check_mark w) (download_directory cfg) (merged_filename cfg)
                     (snd (fetch_stage w cfg es)))) @
              (if raised (main w cfg nd) = None then [Process_complete] else [])) \<and>
         (length (succeeded (fetch_result w) (urls_to_download cfg)) = 1 \<longrightarrow>
            raised (main w cfg nd) = None \<and>
            printed (main w cfg nd) =
              stdout (snd (fetch_stage w cfg es)) @
              [Only_one (page_filename (hd (succeeded (fetch_result w) (urls_to_download cfg)))),
               Process_complete] \<and>
            directory (main w cfg nd) = Dir (files (snd (fetch_stage w cfg es)))) \<and>
         (succeeded (fetch_result w) (urls_to_download cfg) = [] \<longrightarrow>
            raised (main w cfg nd) = None \<and>
            printed (main w cfg nd) =
              stdout (snd (fetch_stage w cfg es)) @ [No_files_downloaded, Process_complete] \<and>
            directory (main w cfg nd) = Dir (files (snd (fetch_stage w cfg es))))"
proof -
  let ?succ = "succeeded (fetch_result w) (urls_to_download cfg)"
  have a: "(list_ex merge_event (printed (main w cfg nd)) \<or>
              raised (main w cfg nd) = Some Stat_error) = (2 \<le> length ?succ)"
  proof (cases "2 \<le> length ?succ")
    case True
    with merge_stage_seen [OF assms True] show ?thesis by simp
  next
    case False
    then have "length ?succ \<le> 1" by simp
    from printed_without_merge(1,3) [OF assms this] False show ?thesis by simp
  qed
  note b = main_of_merge [OF assms]
  have c: "length ?succ = 1 \<Longrightarrow>
            raised (main w cfg nd) = None \<and>
            printed (main w cfg nd) =
              stdout (snd (fetch_stage w cfg es)) @
              [Only_one (page_filename (hd ?succ)), Process_complete] \<and>
            directory (main w cfg nd) = Dir (files (snd (fetch_stage w cfg es)))"
    by (cases ?succ) (simp_all add: main_eq [OF assms] Let_def fetch_stage_eq name_def joinpath_def)
  have d: "?succ = [] \<Longrightarrow>
            raised (main w cfg nd) = None \<and>
            printed (main w cfg nd) =
              stdout (snd (fetch_stage w cfg es)) @ [No_files_downloaded, Process_complete] \<and>
            directory (main w cfg nd) = Dir (files (snd (fetch_stage w cfg es)))"
    by (simp add: main_eq [OF assms] Let_def fetch_stage_eq)
  from a b c d show ?thesis by blast
qed

theorem driver_merges_iff_two_or_more_fetched_witness:
  "mkdir Absent = Inr [] \<and>
   list_ex merge_event (printed (main second_fails configuration Absent)) \<and>
   printed (main first_only configuration Absent) =
     stdout (snd (fetch_stage first_only configuration [])) @
     [Only_one ''page_1.pdf'', Process_complete] \<and>
   directory (main first_only configuration Absent) =
     Dir (files (snd (fetch_stage first_only configuration []))) \<and>
   printed (main none_fetched configuration Absent) =
     stdout (snd (fetch_stage none_fetched configuration [])) @
     [No_files_downloaded, Process_complete] \<and>
   directory (main none_fetched configuration Absent) =
     Dir (files (snd (fetch_stage none_fetched configuration [])))"
proof -
  have m: "mkdir Absent = Inr []" by simp
  have u: "urls_to_download configuration = URLS_TO_DOWNLOAD"
    by (simp add: configuration_def)
  note inst = driver_merges_iff_two_or_more_fetched [OF m, of _ configuration]
  note r = raised_second_fails
  have a: "list_ex merge_event (printed (main second_fails configuration Absent))"
    using inst [of second_fails, THEN conjunct1] r by (simp add: u succeeded_second_fails)
  from a m inst [of first_only, THEN conjunct2, THEN conjunct2, THEN conjunct1]
    inst [of none_fetched, THEN conjunct2, THEN conjunct2, THEN conjunct2]
  show ?thesis
    by (simp add: u succeeded_first_only succeeded_none_fetched page_filename_0)
qed

text \<open>
  C10. Whether the driver merges depends on the number of fetches that returned in this
  run only: with at most one, nothing of the merge stage is printed and no file is
  written after the fetch loop, whatever the directory held before.
\<close>

theorem no_merge_with_at_most_one_fetched:
  assumes "length (succeeded (fetch_result w) (urls_to_download cfg)) \<le> 1"
  shows "\<not> list_ex merge_event (printed (main w cfg nd)) \<and>
         (mkdir nd = Inr es \<longrightarrow>
            raised (main w cfg nd) = None \<and>
            directory (main w cfg nd) = Dir (files (snd (fetch_stage w cfg es))))"
proof (cases "mkdir nd")
  case (Inl e)
  then show ?thesis by (simp add: main_def)
next
  case (Inr es')
  from printed_without_merge [OF Inr assms] Inr show ?thesis by simp
qed

theorem no_merge_with_at_most_one_fetched_witness:
  "length (succeeded (fetch_result first_only) (urls_to_download configuration)) \<le> 1 \<and>
   mkdir used_directory = Inr [old_report, page_1, page_2] \<and>
   glob_pdf [old_report, page_1, page_2] = [old_report, page_1, page_2] \<and>
   \<not> list_ex merge_event (printed (main first_only configuration used_directory)) \<and>
   raised (main first_only configuration used_directory) = None \<and>
   directory (main first_only configuration used_directory) =
     Dir (files (snd (fetch_stage first_only configuration [old_report, page_1, page_2])))"
proof -
  have a: "length (succeeded (fetch_result first_only) (urls_to_download configuration)) \<le> 1"
    by (simp add: configuration_def succeeded_first_only)
  have g: "glob_pdf [old_report, page_1, page_2] = [old_report, page_1, page_2]"
    by (simp add: glob_pdf_def page_1_def page_2_def old_report_def suffix_to_prefix)
  from no_merge_with_at_most_one_fetched
         [OF a, of used_directory "[old_report, page_1, page_2]"] a g
  show ?thesis by (simp add: run_first_only_used)
qed

text \<open>
  C7. The target at 0-based position \<open>i\<close> is fetched to the file \<^verbatim>\<open>page_<i+1>.pdf\<close> of the
  download directory, and the merged document, when it is written, is the file
  \<^verbatim>\<open>merged_filename\<close> of the same directory.
\<close>

theorem fetch_destination_and_merged_path:
  assumes "mkdir nd = Inr es" and "i < length (urls_to_download cfg)"
    and "fetch_result w i = Fetched t ps"
  shows "joinpath (download_directory cfg) (''page_'' @ str_of_nat (i + 1) @ ''.pdf'')
           \<in> set (paths (main w cfg nd)) \<and>
         Saved_to (''page_'' @ str_of_nat (i + 1) @ ''.pdf'') \<in> set (printed (main w cfg nd)) \<and>
         lookup (''page_'' @ str_of_nat (i + 1) @ ''.pdf'') (files (snd (fetch_stage w cfg es))) =
           Some \<lparr>entry_name = ''page_'' @ str_of_nat (i + 1) @ ''.pdf'', getctime = t,
                 body = Pdf ps\<rparr> \<and>
         (2 \<le> length (succeeded (fetch_result w) (urls_to_download cfg)) \<and>
          write_result w = Written t' \<and>
          \<not> getctime_raises (files (snd (fetch_stage w cfg es))) \<and>
          \<not> reads_output (merged_filename cfg) (files (snd (fetch_stage w cfg es))) \<longrightarrow>
            lookup (merged_filename cfg) (dir_entries (directory (main w cfg nd))) =
              Some \<lparr>entry_name = merged_filename cfg, getctime = t',
                    body = Pdf (merged_pages (files (snd (fetch_stage w cfg es))))\<rparr> \<and>
            (encodes_check_mark w \<longrightarrow>
               Merging_completed (joinpath (download_directory cfg) (merged_filename cfg))
                 \<in> set (printed (main w cfg nd))))"
proof -
  let ?urls = "urls_to_download cfg"
  have r: "returned (fetch_result w i)" and sv: "saved (fetch_result w i) = Some (t, ps)"
    using assms(3) by (simp_all add: returned_def saved_def)
  have "i \<in> set (succeeded (fetch_result w) ?urls)"
    using assms(2) r by (simp add: succeeded_def)
  then have "joinpath (download_directory cfg) (page_filename i) \<in> set (paths (main w cfg nd))"
    by (simp add: paths_main [OF assms(1)])
  then have a: "joinpath (download_directory cfg) (''page_'' @ str_of_nat (i + 1) @ ''.pdf'')
           \<in> set (paths (main w cfg nd))"
    by (simp add: page_filename_def)
  have "Saved_to (page_filename i) \<in> set (stdout (after_fetch w cfg es))"
    using saved_to_printed [OF assms(2), of "fetch_result w"] sv by (simp add: after_fetch_def)
  from stdout_after_fetch_printed [OF assms(1) this]
  have b: "Saved_to (''page_'' @ str_of_nat (i + 1) @ ''.pdf'') \<in> set (printed (main w cfg nd))"
    by (simp add: page_filename_def)
  have "lookup (page_filename i) (files (after_fetch w cfg es)) =
          Some \<lparr>entry_name = page_filename i, getctime = t, body = Pdf ps\<rparr>"
    unfolding after_fetch_def fetched_files_def run_state.simps
    by (rule lookup_fold_store_hit) (simp_all add: assms(2) sv)
  then have c: "lookup (''page_'' @ str_of_nat (i + 1) @ ''.pdf'')
                  (files (snd (fetch_stage w cfg es))) =
           Some \<lparr>entry_name = ''page_'' @ str_of_nat (i + 1) @ ''.pdf'', getctime = t,
                 body = Pdf ps\<rparr>"
    by (simp add: page_filename_def fetch_stage_eq)
  have d: "2 \<le> length (succeeded (fetch_result w) ?urls) \<Longrightarrow> write_result w = Written t' \<Longrightarrow>
           \<not> getctime_raises (files (snd (fetch_stage w cfg es))) \<Longrightarrow>
           \<not> reads_output (merged_filename cfg) (files (snd (fetch_stage w cfg es))) \<Longrightarrow>
            lookup (merged_filename cfg) (dir_entries (directory (main w cfg nd))) =
              Some \<lparr>entry_name = merged_filename cfg, getctime = t',
                    body = Pdf (merged_pages (files (snd (fetch_stage w cfg es))))\<rparr> \<and>
            (encodes_check_mark w \<longrightarrow>
               Merging_completed (joinpath (download_directory cfg) (merged_filename cfg))
                 \<in> set (printed (main w cfg nd)))"
    using merged_file_written(1,3) [OF assms(1)] by (simp add: fetch_stage_eq)
  from a b c d show ?thesis by blast
qed

theorem fetch_destination_and_merged_path_witness:
  "mkdir Absent = Inr [] \<and> fetch_result all_fetched 0 = Fetched 100 [100] \<and>
   (DOWNLOAD_DIRECTORY, ''page_1.pdf'') \<in> set (paths (main all_fetched configuration Absent)) \<and>
   Saved_to ''page_1.pdf'' \<in> set (printed (main all_fetched configuration Absent)) \<and>
   lookup ''page_1.pdf'' (files (snd (fetch_stage all_fetched configuration []))) =
     Some \<lparr>entry_name = ''page_1.pdf'', getctime = 100, body = Pdf [100]\<rparr> \<and>
   Merging_completed (DOWNLOAD_DIRECTORY, MERGED_FILENAME)
     \<in> set (printed (main all_fetched configuration Absent)) \<and>
   lookup MERGED_FILENAME (dir_entries (directory (main all_fetched configuration Absent))) =
     Some \<lparr>entry_name = MERGED_FILENAME, getctime = 200, body = Pdf [100, 101, 102]\<rparr>"
proof -
  have m: "mkdir Absent = Inr []" by simp
  have i: "0 < length (urls_to_download configuration)"
    by (simp add: configuration_def URLS_TO_DOWNLOAD_def)
  have f: "fetch_result all_fetched 0 = Fetched 100 [100]"
    by (simp add: all_fetched_def)
  have w: "write_result all_fetched = Written 200" "encodes_check_mark all_fetched"
    by (simp_all add: all_fetched_def)
  have s: "2 \<le> length (succeeded (fetch_result all_fetched) (urls_to_download configuration))"
    by (simp add: configuration_def succeeded_all_fetched)
  have p: "''page_'' @ str_of_nat (0 + 1) @ ''.pdf'' = ''page_1.pdf''"
    using page_filename_0 by (simp add: page_filename_def)
  note g = stat_all_fetched and o = output_all_fetched
  from fetch_destination_and_merged_path [OF m i f, of 200] m f w s g o
  show ?thesis
    unfolding p by (simp add: joinpath_def merged_pages_all_fetched) (simp add: configuration_def)
qed




end
